theory Spec2Isabelle
  imports Complex_Main
begin

section \<open>Smart auto loan planner: the financial projection engine\<close>

text \<open>
  A shallow embedding of \<^verbatim>\<open>finance_calculator.py\<close> and of the calculation block of
  \<^verbatim>\<open>app.py\<close>. Python's \<^verbatim>\<open>int\<close> is \<^typ>\<open>int\<close>. Python's \<^verbatim>\<open>float\<close> is modelled by
  \<^typ>\<open>real\<close>: a result about these definitions is a statement of exact arithmetic, and
  rounding of IEEE doubles is not part of them. For \<^verbatim>\<open>calculate_emi\<close> there is a second
  embedding, \<open>calculate_emi_double\<close>, in which every operation rounds its result to an
  IEEE binary64 double as Python does. A raised exception is a value of the type
  \<open>py_error\<close>, on the left of a sum.
\<close>

subsection \<open>Data\<close>

datatype py_error = ZeroDivisionError | OverflowError

text \<open>
  The dictionary that \<^verbatim>\<open>VehicleData.get_vehicle_info\<close> returns for a row of the catalog.
  Only the four keys that the calculator reads are kept; a key that the dictionary does
  not hold is \<open>None\<close>, so that \<^verbatim>\<open>vehicle_info.get(key, default)\<close> is \<open>dict_get\<close>.
  The text column is a string and the three numeric columns are numbers.
\<close>

record vehicle_record =
  fuel_type :: "string option"
  efficiency :: "real option"
  avg_insurance_per_year :: "real option"
  avg_maintenance_per_year :: "real option"

text \<open>
  The argument \<^verbatim>\<open>vehicle_info\<close> itself: \<open>None\<close> stands for the two values that
  \<^verbatim>\<open>not vehicle_info\<close> accepts (Python's \<^verbatim>\<open>None\<close> and the empty dictionary), \<open>Some r\<close>
  for a dictionary with at least one key.
\<close>

type_synonym vehicle_info = "vehicle_record option"

definition dict_get :: "'a option \<Rightarrow> 'a \<Rightarrow> 'a" where
  "dict_get entry dflt = (case entry of None \<Rightarrow> dflt | Some v \<Rightarrow> v)"

text \<open>One row of the schedule: the dictionary appended in the loop of
  \<^verbatim>\<open>generate_amortization_and_depreciation\<close>.\<close>

record schedule_row =
  Year :: nat
  Loan_Balance :: real
  Car_Value :: real

subsection \<open>\<^verbatim>\<open>calculate_emi\<close>\<close>

text \<open>
  Python's \<^verbatim>\<open>x ** n\<close> for a float \<open>x\<close> and an int \<open>n\<close>: a negative exponent is the
  reciprocal of the positive power. (It raises for \<open>x = 0\<close> and \<open>n < 0\<close>; the only base
  used below is \<open>1 + monthly_rate\<close> with \<open>monthly_rate > 0\<close>.)
\<close>

definition float_pow :: "real \<Rightarrow> int \<Rightarrow> real" where
  "float_pow x n = (if 0 \<le> n then x ^ nat n else 1 / x ^ nat (- n))"

text \<open>Python's \<^verbatim>\<open>a / b\<close>: division by zero raises.\<close>

definition float_div :: "real \<Rightarrow> real \<Rightarrow> py_error + real" where
  "float_div a b = (if b = 0 then Inl ZeroDivisionError else Inr (a / b))"

definition calculate_emi :: "real \<Rightarrow> real \<Rightarrow> int \<Rightarrow> py_error + real" where
  "calculate_emi loan_principal annual_rate term_years =
     (let monthly_rate = (annual_rate / 100) / 12;
          term_months = term_years * 12
      in if monthly_rate > 0 then
           float_div (loan_principal * (monthly_rate * float_pow (1 + monthly_rate) term_months))
                     (float_pow (1 + monthly_rate) term_months - 1)
         else
           (if term_months > 0 then float_div loan_principal (of_int term_months) else Inr 0))"

subsection \<open>\<^verbatim>\<open>calculate_total_cost_of_ownership\<close>\<close>

text \<open>The returned dictionary, in insertion order; \<^verbatim>\<open>{}\<close> is the empty list.\<close>

type_synonym tco_breakdown = "(string \<times> real) list"

definition calculate_total_cost_of_ownership ::
  "vehicle_info \<Rightarrow> real \<Rightarrow> int \<Rightarrow> real \<Rightarrow> real \<Rightarrow> tco_breakdown" where
  "calculate_total_cost_of_ownership vehicle_info total_loan_cost term_years gas_price electricity_price =
     (case vehicle_info of
        None \<Rightarrow> []
      | Some info \<Rightarrow>
         (let insurance_cost = dict_get (avg_insurance_per_year info) 0 * of_int term_years;
              maintenance_cost = dict_get (avg_maintenance_per_year info) 0 * of_int term_years;
              fuel_type = dict_get (fuel_type info) ''Gas'';
              efficiency = dict_get (efficiency info) 30;
              annual_miles = 12000;
              total_fuel_charging_cost =
                (if fuel_type = ''Gas'' then
                   (let gallons_per_year = (if efficiency > 0 then annual_miles / efficiency else 0)
                    in gallons_per_year * gas_price * of_int term_years)
                 else if fuel_type = ''Electric'' then
                   (let kwh_per_year = (annual_miles / 100) * efficiency
                    in kwh_per_year * electricity_price * of_int term_years)
                 else 0);
              total_tco = total_loan_cost + insurance_cost + maintenance_cost + total_fuel_charging_cost
          in [(''Loan Payments'', total_loan_cost),
              (''Insurance'', insurance_cost),
              (''Maintenance'', maintenance_cost),
              (''Fuel/Charging'', total_fuel_charging_cost),
              (''Total TCO'', total_tco)]))"

subsection \<open>\<^verbatim>\<open>generate_amortization_and_depreciation\<close>\<close>

text \<open>One pass of the inner loop: a month's payment.\<close>

definition pay_month :: "real \<Rightarrow> real \<Rightarrow> real \<Rightarrow> real" where
  "pay_month annual_rate emi remaining_balance =
     (let interest_payment = remaining_balance * (annual_rate / 100 / 12);
          principal_payment = emi - interest_payment
      in remaining_balance - principal_payment)"

definition annual_depreciation_rate :: real where
  "annual_depreciation_rate = 0.15"

text \<open>
  The outer loop over \<^verbatim>\<open>range(term_years + 1)\<close>, with the two variables it updates:
  \<^verbatim>\<open>remaining_balance\<close> and \<^verbatim>\<open>schedule\<close>.
\<close>

fun schedule_loop :: "real \<Rightarrow> real \<Rightarrow> real \<Rightarrow> nat list \<Rightarrow> real \<Rightarrow> schedule_row list \<Rightarrow> schedule_row list" where
  "schedule_loop annual_rate emi vehicle_price [] remaining_balance schedule = schedule"
| "schedule_loop annual_rate emi vehicle_price (year # years) remaining_balance schedule =
     (if year = 0 then
        (let depreciated_value = vehicle_price
         in schedule_loop annual_rate emi vehicle_price years remaining_balance
              (schedule @ [\<lparr>Year = year, Loan_Balance = max 0 remaining_balance,
                           Car_Value = depreciated_value\<rparr>]))
      else
        (let remaining_balance' = (pay_month annual_rate emi ^^ 12) remaining_balance;
             depreciated_value = vehicle_price * ((1 - annual_depreciation_rate) ^ year)
         in schedule_loop annual_rate emi vehicle_price years remaining_balance'
              (schedule @ [\<lparr>Year = year, Loan_Balance = max 0 remaining_balance',
                           Car_Value = depreciated_value\<rparr>])))"

definition generate_amortization_and_depreciation ::
  "real \<Rightarrow> real \<Rightarrow> int \<Rightarrow> real \<Rightarrow> real \<Rightarrow> vehicle_info \<Rightarrow> schedule_row list" where
  "generate_amortization_and_depreciation loan_principal annual_rate term_years emi vehicle_price vehicle_info =
     schedule_loop annual_rate emi vehicle_price [0 ..< nat (term_years + 1)] loan_principal []"

subsection \<open>\<^verbatim>\<open>app.py\<close>: underwater amounts and the financial health check\<close>

text \<open>
  \<^verbatim>\<open>(schedule_df['Loan_Balance'] - schedule_df['Car_Value']).clip(lower=0)\<close>: the
  difference of the two columns, row by row, with every value below 0 replaced by 0.
\<close>

definition underwater_amounts :: "schedule_row list \<Rightarrow> real list" where
  "underwater_amounts schedule_df =
     map (\<lambda>row. max 0 (Loan_Balance row - Car_Value row)) schedule_df"

text \<open>\<^verbatim>\<open>underwater_amounts.max()\<close>: the largest entry of the series; a series with no
  entry has none (pandas answers NaN).\<close>

definition max_underwater :: "schedule_row list \<Rightarrow> real option" where
  "max_underwater schedule_df =
     (case underwater_amounts schedule_df of
        [] \<Rightarrow> None
      | u # us \<Rightarrow> Some (fold max us u))"

text \<open>
  The block under \<^verbatim>\<open>st.subheader("Financial Health")\<close>. The result is \<open>None\<close> when
  the income is missing or not positive (the branch that only asks for the income), and
  otherwise the pair of \<^verbatim>\<open>tco_ratio\<close> and \<^verbatim>\<open>status_text\<close>.
\<close>

definition financial_health ::
  "tco_breakdown \<Rightarrow> int \<Rightarrow> real \<Rightarrow> py_error + (real \<times> string) option" where
  "financial_health tco_breakdown loan_term monthly_income =
     (if monthly_income \<noteq> 0 \<and> monthly_income > 0 then
        (case float_div (dict_get (map_of tco_breakdown ''Total TCO'') 0) (of_int (loan_term * 12)) of
           Inl e \<Rightarrow> Inl e
         | Inr monthly_tco \<Rightarrow>
            (let tco_ratio = (monthly_tco / monthly_income) * 100
             in if tco_ratio < 15 then Inr (Some (tco_ratio, ''Good''))
                else if tco_ratio < 20 then Inr (Some (tco_ratio, ''Borderline''))
                else Inr (Some (tco_ratio, ''High-Risk''))))
      else Inr None)"

subsection \<open>\<^verbatim>\<open>calculate_emi\<close> in double precision\<close>

text \<open>
  A Python float is an IEEE binary64 double: a finite value (a real number that the format
  holds), an infinity or a NaN. The two zeros are not told apart: their sign shows only
  in a division by zero, which Python raises on.
\<close>

datatype double = Finite real | PosInf | NegInf | NaN

text \<open>
  The binary exponent of \<open>a > 0\<close>: the \<open>e\<close> with \<open>2 ^ e \<le> a < 2 ^ (e + 1)\<close>, found by
  halving a value \<open>\<ge> 1\<close> and doubling a value \<open>< 1\<close>.
\<close>

function norm_up :: "real \<Rightarrow> int" where
  "norm_up x = (if 2 \<le> x then 1 + norm_up (x / 2) else 0)"
  by pat_completeness auto
termination
proof (relation "measure (\<lambda>x. nat \<lceil>x\<rceil>)")
  show "wf (measure (\<lambda>x::real. nat \<lceil>x\<rceil>))" by simp
next
  fix x :: real
  assume "2 \<le> x"
  then have "x / 2 \<le> x - 1" by simp
  then have "\<lceil>x / 2\<rceil> \<le> \<lceil>x - 1\<rceil>" by (rule ceiling_mono)
  moreover have "0 < \<lceil>x\<rceil>" using \<open>2 \<le> x\<close> by (simp add: ceiling_less_iff less_ceiling_iff)
  ultimately show "(x / 2, x) \<in> measure (\<lambda>x. nat \<lceil>x\<rceil>)"
    by simp
qed

function norm_down :: "real \<Rightarrow> int" where
  "norm_down x = (if 0 < x \<and> x < 1 then norm_down (2 * x) - 1 else 0)"
  by pat_completeness auto
termination
proof (relation "measure (\<lambda>x. nat \<lceil>1 / x\<rceil>)")
  show "wf (measure (\<lambda>x::real. nat \<lceil>1 / x\<rceil>))" by simp
next
  fix x :: real
  assume x: "0 < x \<and> x < 1"
  define y where "y = 1 / x"
  have y: "1 < y" using x by (simp add: y_def)
  have two: "2 \<le> \<lceil>y\<rceil>" using y by (simp add: le_ceiling_iff)
  have "y / 2 \<le> of_int (\<lceil>y\<rceil> - 1)"
  proof (cases "y \<le> 2")
    case True
    then have "y / 2 \<le> 1" by simp
    also have "1 \<le> (of_int (\<lceil>y\<rceil> - 1) :: real)" using two by linarith
    finally show ?thesis .
  next
    case False
    then have "y / 2 \<le> y - 1" by simp
    also have "y - 1 \<le> of_int (\<lceil>y\<rceil> - 1)" by (simp add: le_of_int_ceiling)
    finally show ?thesis .
  qed
  then have "\<lceil>y / 2\<rceil> \<le> \<lceil>y\<rceil> - 1" by (rule ceiling_le)
  moreover have "1 / (2 * x) = y / 2" by (simp add: y_def)
  ultimately have "\<lceil>1 / (2 * x)\<rceil> < \<lceil>1 / x\<rceil> \<and> 0 < \<lceil>1 / x\<rceil>"
    using two unfolding y_def by (simp only:) linarith
  then show "(2 * x, x) \<in> measure (\<lambda>x. nat \<lceil>1 / x\<rceil>)"
    unfolding in_measure zless_nat_conj by simp
qed

declare norm_up.simps [simp del] norm_down.simps [simp del]

definition binary_exponent :: "real \<Rightarrow> int" where
  "binary_exponent a = (if 1 \<le> a then norm_up a else norm_down a)"

text \<open>Rounding to the nearest integer, a tie going to the even one.\<close>

definition round_half_even :: "real \<Rightarrow> int" where
  "round_half_even q =
     (let f = \<lfloor>q\<rfloor>; d = q - of_int f
      in if d < 1 / 2 then f
         else if 1 / 2 < d then f + 1
         else if even f then f else f + 1)"

text \<open>
  The double nearest to a real number (round to nearest, ties to even): 53 significant
  bits, the exponent not below that of the subnormal numbers (\<open>- 1022\<close>), and an
  infinity when the rounded magnitude reaches \<open>2 ^ 1024\<close>.
\<close>

definition round_double :: "real \<Rightarrow> double" where
  "round_double x =
     (if x = 0 then Finite 0
      else
        (let a = \<bar>x\<bar>;
             e = max (binary_exponent a) (- 1022);
             ulp = float_pow 2 (e - 52);
             m = of_int (round_half_even (a / ulp)) * ulp
         in if 2 ^ 1024 \<le> m then (if 0 < x then PosInf else NegInf)
            else Finite (if 0 < x then m else - m)))"

text \<open>An \<^verbatim>\<open>int\<close> operand of a float operation is converted to a float first; the
  conversion raises when the integer is too large.\<close>

definition int_to_double :: "int \<Rightarrow> py_error + double" where
  "int_to_double n =
     (case round_double (of_int n) of
        Finite v \<Rightarrow> Inr (Finite v)
      | _ \<Rightarrow> Inl OverflowError)"

fun double_neg :: "double \<Rightarrow> double" where
  "double_neg (Finite x) = Finite (- x)"
| "double_neg PosInf = NegInf"
| "double_neg NegInf = PosInf"
| "double_neg NaN = NaN"

fun double_add :: "double \<Rightarrow> double \<Rightarrow> double" where
  "double_add (Finite x) (Finite y) = round_double (x + y)"
| "double_add NaN y = NaN"
| "double_add x NaN = NaN"
| "double_add PosInf NegInf = NaN"
| "double_add NegInf PosInf = NaN"
| "double_add PosInf y = PosInf"
| "double_add NegInf y = NegInf"
| "double_add (Finite x) y = y"

definition double_sub :: "double \<Rightarrow> double \<Rightarrow> double" where
  "double_sub x y = double_add x (double_neg y)"

fun double_mul :: "double \<Rightarrow> double \<Rightarrow> double" where
  "double_mul (Finite x) (Finite y) = round_double (x * y)"
| "double_mul NaN y = NaN"
| "double_mul x NaN = NaN"
| "double_mul (Finite x) y = (if x = 0 then NaN else if 0 < x then y else double_neg y)"
| "double_mul x (Finite y) = (if y = 0 then NaN else if 0 < y then x else double_neg x)"
| "double_mul x y = (if x = y then PosInf else NegInf)"

text \<open>Python's \<^verbatim>\<open>a / b\<close> on floats: a zero divisor raises, whatever the dividend.\<close>

fun double_div :: "double \<Rightarrow> double \<Rightarrow> py_error + double" where
  "double_div x (Finite y) =
     (if y = 0 then Inl ZeroDivisionError
      else case x of
             Finite v \<Rightarrow> Inr (round_double (v / y))
           | NaN \<Rightarrow> Inr NaN
           | _ \<Rightarrow> Inr (if 0 < y then x else double_neg x))"
| "double_div NaN y = Inr NaN"
| "double_div x NaN = Inr NaN"
| "double_div (Finite x) y = Inr (Finite 0)"
| "double_div x y = Inr NaN"

text \<open>The test \<^verbatim>\<open>x > 0\<close>.\<close>

fun double_positive :: "double \<Rightarrow> bool" where
  "double_positive (Finite x) = (0 < x)"
| "double_positive PosInf = True"
| "double_positive NegInf = False"
| "double_positive NaN = False"

text \<open>
  Python's \<^verbatim>\<open>x ** n\<close> for a float \<open>x\<close> and an int \<open>n\<close>: anything to the power 0 is 1, zero
  to a negative power raises \<open>ZeroDivisionError\<close>, and a finite base whose power is too
  large raises \<open>OverflowError\<close>. The power of a finite base is taken correctly rounded;
  the C library function that Python calls promises only a result within an ulp of that.
\<close>

definition double_pow :: "double \<Rightarrow> int \<Rightarrow> py_error + double" where
  "double_pow x n =
     (case int_to_double n of
        Inl e \<Rightarrow> Inl e
      | Inr _ \<Rightarrow>
         if n = 0 then Inr (Finite 1)
         else case x of
                NaN \<Rightarrow> Inr NaN
              | PosInf \<Rightarrow> Inr (if 0 < n then PosInf else Finite 0)
              | NegInf \<Rightarrow> Inr (if n < 0 then Finite 0 else if even n then PosInf else NegInf)
              | Finite v \<Rightarrow>
                  if v = 0 \<and> n < 0 then Inl ZeroDivisionError
                  else (case round_double (float_pow v n) of
                          Finite r \<Rightarrow> Inr (Finite r)
                        | _ \<Rightarrow> Inl OverflowError))"

text \<open>
  \<^verbatim>\<open>calculate_emi\<close> called with floats for \<^verbatim>\<open>principal\<close> and \<^verbatim>\<open>annual_rate\<close> and an int
  for \<^verbatim>\<open>term_years\<close>, operation by operation. The two occurrences of
  \<^verbatim>\<open>(1 + monthly_rate)**term_months\<close> have the same value, named \<open>growth\<close>.
\<close>

definition calculate_emi_double :: "double \<Rightarrow> double \<Rightarrow> int \<Rightarrow> py_error + double" where
  "calculate_emi_double loan_principal annual_rate term_years =
     (case double_div annual_rate (Finite 100) of
        Inl e \<Rightarrow> Inl e
      | Inr percent \<Rightarrow>
     (case double_div percent (Finite 12) of
        Inl e \<Rightarrow> Inl e
      | Inr monthly_rate \<Rightarrow>
     (let term_months = term_years * 12
      in if double_positive monthly_rate then
           (case double_pow (double_add (Finite 1) monthly_rate) term_months of
              Inl e \<Rightarrow> Inl e
            | Inr growth \<Rightarrow>
                double_div (double_mul loan_principal (double_mul monthly_rate growth))
                           (double_sub growth (Finite 1)))
         else
           (if term_months > 0 then
              (case int_to_double term_months of
                 Inl e \<Rightarrow> Inl e
               | Inr months \<Rightarrow> double_div loan_principal months)
            else Inr (Finite 0)))))"

text \<open>\<^verbatim>\<open>total_loan_cost = emi * (loan_term * 12)\<close> of \<^verbatim>\<open>app.py\<close>: the payment times the
  number of months.\<close>

definition total_loan_cost_double :: "double \<Rightarrow> int \<Rightarrow> py_error + double" where
  "total_loan_cost_double emi loan_term =
     (case int_to_double (loan_term * 12) of
        Inl e \<Rightarrow> Inl e
      | Inr months \<Rightarrow> Inr (double_mul emi months))"

section \<open>Properties\<close>

subsection \<open>Auxiliary facts about the annuity formula\<close>

lemma float_pow_nonneg: "0 \<le> n \<Longrightarrow> float_pow x n = x ^ nat n"
  by (simp add: float_pow_def)

lemma power_gt_one:
  fixes r :: real
  assumes "0 < r" "0 < n"
  shows "1 < (1 + r) ^ n"
  using assms by (intro one_less_power) simp_all

lemma power_minus_one_bound:
  fixes r :: real
  assumes "0 \<le> r"
  shows "(1 + r) ^ n - 1 \<le> of_nat n * r * (1 + r) ^ n"
proof (induction n)
  case 0
  show ?case by simp
next
  case (Suc n)
  have one: "1 \<le> (1 + r) ^ Suc n"
    using assms by (intro one_le_power) simp
  have "(1 + r) ^ Suc n - 1 = ((1 + r) ^ n - 1) * (1 + r) + r"
    by (simp add: algebra_simps)
  also have "\<dots> \<le> (of_nat n * r * (1 + r) ^ n) * (1 + r) + r"
    using Suc.IH assms by (intro add_right_mono mult_right_mono) simp_all
  also have "\<dots> \<le> (of_nat n * r * (1 + r) ^ n) * (1 + r) + r * (1 + r) ^ Suc n"
    using one assms by (intro add_left_mono) (simp add: mult_le_cancel_left1 del: power_Suc)
  also have "\<dots> = of_nat (Suc n) * r * (1 + r) ^ Suc n"
    by (simp add: algebra_simps)
  finally show ?case .
qed

text \<open>The value of \<open>calculate_emi\<close> in its two branches, for a positive term.\<close>

lemma calculate_emi_positive_rate:
  assumes "0 < rate" and "0 < term_years"
  shows "calculate_emi P rate term_years =
         Inr (P * (rate / 100 / 12 * (1 + rate / 100 / 12) ^ nat (term_years * 12)) /
              ((1 + rate / 100 / 12) ^ nat (term_years * 12) - 1))"
proof -
  have "0 < rate / 100 / 12" using assms(1) by simp
  moreover have "0 < nat (term_years * 12)" using assms(2) by simp
  ultimately have "1 < (1 + rate / 100 / 12) ^ nat (term_years * 12)"
    by (rule power_gt_one)
  then have ne: "(1 + rate / 100 / 12) ^ nat (term_years * 12) - 1 \<noteq> 0"
    by simp
  show ?thesis
    using ne assms
    by (simp add: calculate_emi_def Let_def float_div_def float_pow_nonneg)
qed

lemma calculate_emi_zero_rate:
  assumes "0 < term_years"
  shows "calculate_emi P 0 term_years = Inr (P / of_int (term_years * 12))"
  using assms by (simp add: calculate_emi_def float_div_def)

subsection \<open>Evaluating the double-precision operations\<close>

lemma norm_up_step: "2 \<le> x \<Longrightarrow> norm_up x = 1 + norm_up (x / 2)"
  by (subst norm_up.simps) simp

lemma norm_up_stop: "x < 2 \<Longrightarrow> norm_up x = 0"
  by (subst norm_up.simps) simp

lemma norm_down_step: "0 < x \<Longrightarrow> x < 1 \<Longrightarrow> norm_down x = norm_down (2 * x) - 1"
  by (subst norm_down.simps) simp

lemma norm_down_stop: "1 \<le> x \<Longrightarrow> norm_down x = 0"
  by (subst norm_down.simps) simp

lemmas double_eval =
  round_double_def binary_exponent_def round_half_even_def int_to_double_def float_pow_def Let_def
  norm_up_step norm_up_stop norm_down_step norm_down_stop

subsection \<open>The payments recover the principal\<close>

text \<open>
  C1, as stated: for every principal \<open>\<ge> 0\<close>, annual rate \<open>\<ge> 0\<close> and term \<open>> 0\<close>, the
  result of \<open>calculate_emi\<close> times the number of months is at least the principal. In
  the doubles that the code computes with this fails: at principal 51, rate 0 and 7
  years the payment is the double nearest to \<open>51 / 84\<close>, which is
  0.6071428571428571, and that payment times 84 rounds to 50.99999999999999
  (\<open>51 - 2 ^ - 47\<close>), below the principal.
\<close>

theorem calculate_emi_double_under_recovers:
  "calculate_emi_double (Finite 51) (Finite 0) 7 = Inr (Finite (5468656690378459 / 2 ^ 53)) \<and>
   total_loan_cost_double (Finite (5468656690378459 / 2 ^ 53)) 7 =
     Inr (Finite (7177611906121727 / 2 ^ 47)) \<and>
   (7177611906121727 / 2 ^ 47 :: real) < 51"
  by (simp add: calculate_emi_double_def total_loan_cost_double_def double_eval)

text \<open>
  C1, amended: in exact arithmetic (the formula of \<open>calculate_emi\<close> over the real
  numbers, with no rounding), for every principal \<open>\<ge> 0\<close>, annual rate \<open>\<ge> 0\<close> and term
  \<open>> 0\<close>, \<open>calculate_emi\<close> returns a payment, and the payment times the number of months
  (\<open>term_years * 12\<close>) is at least the principal.
\<close>

theorem calculate_emi_recovers_principal:
  assumes "0 \<le> P" and "0 \<le> rate" and "0 < term_years"
  shows "\<exists>emi. calculate_emi P rate term_years = Inr emi \<and> P \<le> emi * of_int (term_years * 12)"
proof (cases "rate = 0")
  case True
  with assms show ?thesis
    by (simp add: calculate_emi_zero_rate)
next
  case False
  define r where "r = rate / 100 / 12"
  define n where "n = nat (term_years * 12)"
  define a where "a = (1 + r) ^ n"
  have pos: "0 < rate" using False assms by simp
  have r: "0 < r" using pos by (simp add: r_def)
  have n: "0 < n" using assms by (simp add: n_def)
  have tm: "term_years * 12 = int n" using assms by (simp add: n_def)
  have a: "1 < a" unfolding a_def using r n by (rule power_gt_one)
  have emi: "calculate_emi P rate term_years = Inr (P * (r * a) / (a - 1))"
    unfolding a_def r_def n_def using pos assms(3) by (rule calculate_emi_positive_rate)
  have "a - 1 \<le> of_nat n * r * a"
    unfolding a_def using r by (intro power_minus_one_bound) simp
  then have "P * (a - 1) \<le> P * (of_nat n * r * a)"
    using assms(1) by (rule mult_left_mono)
  then have "P \<le> P * (r * a) / (a - 1) * of_nat n"
    using a by (simp add: field_simps)
  with emi show ?thesis
    by (simp add: tm)
qed

theorem calculate_emi_recovers_principal_witness:
  "(0::real) \<le> 36000 \<and> (0::real) \<le> 6 \<and> (0::int) < 6 \<and>
   (\<exists>emi. calculate_emi 36000 6 6 = Inr emi \<and> 36000 \<le> emi * of_int (6 * 12))"
  using calculate_emi_recovers_principal [of 36000 6 6] by simp

subsection \<open>Zero-term loans\<close>

text \<open>The branch \<open>monthly_rate = 0\<close> guards the zero term and returns 0.\<close>

lemma calculate_emi_zero_term_zero_rate: "calculate_emi P 0 0 = Inr 0"
  by (simp add: calculate_emi_def)

text \<open>
  C3. The claim: with \<open>term_years = 0\<close> and a rate \<open>\<ge> 0\<close>, \<open>calculate_emi\<close> returns 0 or
  rejects the input, in the branch \<open>monthly_rate > 0\<close> as in the branch
  \<open>monthly_rate = 0\<close>. The code guards the division only in the second branch; in the
  first, \<open>(1 + monthly_rate) ** 0 - 1\<close> is 0 and the division raises
  \<open>ZeroDivisionError\<close>: at principal 36000 and rate 6 the call does not return 0.
\<close>

theorem calculate_emi_zero_term_positive_rate:
  "calculate_emi 36000 6 0 = Inl ZeroDivisionError"
  by (simp add: calculate_emi_def float_div_def float_pow_def)

subsection \<open>Auxiliary facts about the schedule\<close>

text \<open>Iterating a map \<open>x \<mapsto> x * q - e\<close>, which is what a month's payment does to the balance.\<close>

lemma affine_funpow:
  fixes q e b :: real
  shows "((\<lambda>x. x * q - e) ^^ k) b = b * q ^ k - e * (\<Sum>i<k. q ^ i)"
proof (induction k)
  case 0
  show ?case by simp
next
  case (Suc k)
  have shift: "(\<Sum>i<Suc k. q ^ i) = 1 + q * (\<Sum>i<k. q ^ i)"
    by (simp add: sum.lessThan_Suc_shift sum_distrib_left del: sum.lessThan_Suc)
  have "((\<lambda>x. x * q - e) ^^ Suc k) b = ((\<lambda>x. x * q - e) ^^ k) b * q - e"
    by simp
  also have "\<dots> = (b * q ^ k - e * (\<Sum>i<k. q ^ i)) * q - e"
    by (simp only: Suc.IH)
  also have "\<dots> = b * q ^ Suc k - e * (1 + q * (\<Sum>i<k. q ^ i))"
    by (simp add: algebra_simps)
  also have "\<dots> = b * q ^ Suc k - e * (\<Sum>i<Suc k. q ^ i)"
    by (simp only: shift)
  finally show ?case .
qed

lemma pay_month_affine: "pay_month ar emi = (\<lambda>x. x * (1 + ar / 100 / 12) - emi)"
  by (rule ext) (simp add: pay_month_def Let_def algebra_simps)

lemma pay_month_funpow:
  "(pay_month ar emi ^^ k) b =
   b * (1 + ar / 100 / 12) ^ k - emi * (\<Sum>i<k. (1 + ar / 100 / 12) ^ i)"
  by (simp only: pay_month_affine affine_funpow)

lemma geometric_partial_sum:
  fixes r :: real
  shows "r * (\<Sum>i<k. (1 + r) ^ i) = (1 + r) ^ k - 1"
  by (induction k) (simp_all add: algebra_simps)

text \<open>
  The loop, started at a year \<open>k > 0\<close> with the balance that \<open>12 * (k - 1)\<close> payments
  leave, appends one row per year; the row of year \<open>y\<close> holds the clamped balance after
  \<open>12 * y\<close> payments.
\<close>

lemma schedule_loop_later_years:
  "0 < k \<Longrightarrow>
   schedule_loop ar emi vp [k ..< k + m] ((pay_month ar emi ^^ (12 * (k - 1))) P) acc =
   acc @ map (\<lambda>y. \<lparr>Year = y, Loan_Balance = max 0 ((pay_month ar emi ^^ (12 * y)) P),
                    Car_Value = vp * (1 - annual_depreciation_rate) ^ y\<rparr>) [k ..< k + m]"
proof (induction m arbitrary: k acc)
  case 0
  show ?case by simp
next
  case (Suc m)
  have split: "[k ..< k + Suc m] = k # [Suc k ..< Suc k + m]"
    by (simp add: upt_conv_Cons)
  have step: "(pay_month ar emi ^^ 12) ((pay_month ar emi ^^ (12 * (k - 1))) P) =
              (pay_month ar emi ^^ (12 * (Suc k - 1))) P"
  proof -
    have e: "12 * (Suc k - 1) = 12 + 12 * (k - 1)" using Suc.prems by simp
    show ?thesis unfolding e by (simp only: funpow_add o_apply)
  qed
  show ?case
    apply (simp only: split schedule_loop.simps Let_def step)
    using Suc.prems Suc.IH [of "Suc k"]
    apply simp
    done
qed

lemma generate_closed_form:
  assumes "0 \<le> term_years"
  shows "generate_amortization_and_depreciation P ar term_years emi vp vi =
         map (\<lambda>y. \<lparr>Year = y, Loan_Balance = max 0 ((pay_month ar emi ^^ (12 * y)) P),
                    Car_Value = vp * (1 - annual_depreciation_rate) ^ y\<rparr>)
             [0 ..< nat (term_years + 1)]"
proof -
  obtain n where n: "nat (term_years + 1) = Suc n"
    using assms by (cases "nat (term_years + 1)") simp_all
  have upt: "[0 ..< Suc n] = 0 # [1 ..< 1 + n]"
    by (simp add: upt_conv_Cons)
  show ?thesis
    unfolding generate_amortization_and_depreciation_def n upt
    using schedule_loop_later_years [of 1 ar emi vp n P]
    by (simp add: Let_def)
qed

lemma generate_length:
  "0 \<le> term_years \<Longrightarrow>
   length (generate_amortization_and_depreciation P ar term_years emi vp vi) = nat (term_years + 1)"
  by (simp add: generate_closed_form)

lemma generate_nth:
  assumes "0 \<le> term_years" and "i < nat (term_years + 1)"
  shows "generate_amortization_and_depreciation P ar term_years emi vp vi ! i =
         \<lparr>Year = i, Loan_Balance = max 0 ((pay_month ar emi ^^ (12 * i)) P),
          Car_Value = vp * (1 - annual_depreciation_rate) ^ i\<rparr>"
  using assms by (simp add: generate_closed_form del: upt_Suc)

lemma generate_last:
  assumes "0 \<le> term_years"
  shows "last (generate_amortization_and_depreciation P ar term_years emi vp vi) =
         \<lparr>Year = nat term_years,
          Loan_Balance = max 0 ((pay_month ar emi ^^ (12 * nat term_years)) P),
          Car_Value = vp * (1 - annual_depreciation_rate) ^ nat term_years\<rparr>"
proof -
  have n: "nat (term_years + 1) = Suc (nat term_years)" using assms by simp
  show ?thesis
    by (simp add: generate_closed_form [OF assms] n last_map)
qed

text \<open>With the payment of \<open>calculate_emi\<close>, the last of the \<open>12 * term_years\<close> payments
  leaves exactly nothing.\<close>

lemma balance_paid_off:
  assumes "0 \<le> rate" and "0 < term_years" and "calculate_emi P rate term_years = Inr emi"
  shows "(pay_month rate emi ^^ (12 * nat term_years)) P = 0"
proof (cases "rate = 0")
  case True
  have "emi = P / of_int (term_years * 12)"
    using assms(3) calculate_emi_zero_rate [OF assms(2), of P] True by simp
  moreover have "real (12 * nat term_years) = of_int (term_years * 12)"
    using assms(2) by simp
  ultimately show ?thesis
    using assms(2) True by (simp add: pay_month_funpow)
next
  case False
  define r where "r = rate / 100 / 12"
  define n where "n = nat (term_years * 12)"
  define a where "a = (1 + r) ^ n"
  have pos: "0 < rate" using False assms by simp
  have r: "0 < r" using pos by (simp add: r_def)
  have n: "0 < n" using assms by (simp add: n_def)
  have n12: "12 * nat term_years = n" using assms(2) by (simp add: n_def nat_mult_distrib)
  have a: "1 < a" unfolding a_def using r n by (rule power_gt_one)
  have "calculate_emi P rate term_years = Inr (P * (r * a) / (a - 1))"
    unfolding a_def r_def n_def using pos assms(2) by (rule calculate_emi_positive_rate)
  with assms(3) have emi: "emi = P * (r * a) / (a - 1)" by simp
  have S: "(\<Sum>i<n. (1 + r) ^ i) = (a - 1) / r"
    using geometric_partial_sum [of r n] r by (simp add: a_def field_simps)
  have "(pay_month rate emi ^^ n) P = P * a - emi * ((a - 1) / r)"
    by (simp only: pay_month_funpow r_def [symmetric] S a_def [symmetric])
  also have "\<dots> = 0"
    using a r by (simp add: emi field_simps)
  finally show ?thesis by (simp only: n12)
qed

text \<open>The payment of the scenario: 36000 at 6 percent over 6 years.\<close>

lemma emi_scenario_value:
  "calculate_emi 36000 6 6 =
   Inr (36000 * (6 / 100 / 12 * (1 + 6 / 100 / 12) ^ nat (6 * 12)) /
        ((1 + 6 / 100 / 12) ^ nat (6 * 12) - 1))"
  by (rule calculate_emi_positive_rate) simp_all

lemma emi_scenario_lower:
  "596.62 < (36000 * (6 / 100 / 12 * (1 + 6 / 100 / 12) ^ nat (6 * 12)) /
             ((1 + 6 / 100 / 12) ^ nat (6 * 12) - 1) :: real)"
  by (simp add: power_divide field_simps)

lemma emi_scenario_upper:
  "(36000 * (6 / 100 / 12 * (1 + 6 / 100 / 12) ^ nat (6 * 12)) /
    ((1 + 6 / 100 / 12) ^ nat (6 * 12) - 1) :: real) < 596.63"
  by (simp add: power_divide field_simps)

subsection \<open>The loan is paid off at the end of the term\<close>

text \<open>
  C2, as stated: with \<open>emi = calculate_emi principal rate term_years\<close>, the last row of
  the schedule (the row of year \<open>term_years\<close>) has balance 0; and at principal 36000,
  rate 6 and 6 years the payment is about 596.45 a month. The second part fails: the
  annuity formula gives a payment between 596.62 and 596.63, which is 17 cents away
  from 596.45 and rounds to another amount at the two decimals the figure is written
  with.
\<close>

theorem emi_scenario_not_596_45:
  "596.62 < projr (calculate_emi 36000 6 6) \<and>
   projr (calculate_emi 36000 6 6) < 596.63 \<and>
   \<not> \<bar>projr (calculate_emi 36000 6 6) - 596.45\<bar> < 0.17"
proof -
  have "596.62 < projr (calculate_emi 36000 6 6)"
    by (simp only: emi_scenario_value sum.sel emi_scenario_lower)
  moreover have "projr (calculate_emi 36000 6 6) < 596.63"
    by (simp only: emi_scenario_value sum.sel emi_scenario_upper)
  ultimately show ?thesis by simp
qed

text \<open>
  C2, amended: for every rate \<open>\<ge> 0\<close> and term \<open>> 0\<close> (and every principal), if
  \<open>calculate_emi\<close> returns \<open>emi\<close> then the last row of the schedule is the row of year
  \<open>term_years\<close> and its balance is exactly 0; and at principal 36000, rate 6 and 6 years
  the payment lies between 596.62 and 596.63 and the balance of year 6 is 0.
\<close>

theorem amortization_final_balance_zero:
  "(0 \<le> rate \<and> 0 < term_years \<and> calculate_emi P rate term_years = Inr emi \<longrightarrow>
      Year (last (generate_amortization_and_depreciation P rate term_years emi vp vi)) = nat term_years \<and>
      Loan_Balance (last (generate_amortization_and_depreciation P rate term_years emi vp vi)) = 0) \<and>
   (\<exists>e. calculate_emi 36000 6 6 = Inr e \<and> 596.62 < e \<and> e < 596.63 \<and>
      Year (last (generate_amortization_and_depreciation 36000 6 6 e vp vi)) = 6 \<and>
      Loan_Balance (last (generate_amortization_and_depreciation 36000 6 6 e vp vi)) = 0)"
proof -
  have general: "Year (last (generate_amortization_and_depreciation Q r t e vp vi)) = nat t \<and>
                 Loan_Balance (last (generate_amortization_and_depreciation Q r t e vp vi)) = 0"
    if "0 \<le> r" and "0 < t" and "calculate_emi Q r t = Inr e" for Q r t e
  proof -
    have "0 \<le> t" using that(2) by simp
    then show ?thesis
      by (simp add: generate_last balance_paid_off [OF that])
  qed
  define e :: real where
    "e = 36000 * (6 / 100 / 12 * (1 + 6 / 100 / 12) ^ nat (6 * 12)) /
         ((1 + 6 / 100 / 12) ^ nat (6 * 12) - 1)"
  have e: "calculate_emi 36000 6 6 = Inr e"
    unfolding e_def by (rule emi_scenario_value)
  have bounds: "596.62 < e \<and> e < 596.63"
    unfolding e_def using emi_scenario_lower emi_scenario_upper by (rule conjI)
  have "Year (last (generate_amortization_and_depreciation 36000 6 6 e vp vi)) = nat 6 \<and>
        Loan_Balance (last (generate_amortization_and_depreciation 36000 6 6 e vp vi)) = 0"
    using e by (intro general) simp_all
  with e bounds general show ?thesis by auto
qed

theorem amortization_final_balance_zero_witness:
  "(0::real) \<le> 1200 \<and> (0::int) < 1 \<and> calculate_emi 4095 1200 1 = Inr 4096 \<and>
   Year (last (generate_amortization_and_depreciation 4095 1200 1 4096 5000 None)) = 1 \<and>
   Loan_Balance (last (generate_amortization_and_depreciation 4095 1200 1 4096 5000 None)) = 0"
proof -
  have emi: "calculate_emi 4095 1200 1 = Inr 4096"
    by (simp add: calculate_emi_def float_div_def float_pow_def)
  show ?thesis
    using emi amortization_final_balance_zero
      [where rate = 1200 and term_years = 1 and P = 4095 and emi = 4096 and vp = 5000 and vi = None]
    by simp
qed

subsection \<open>Shape of the schedule\<close>

text \<open>
  C7. For every principal \<open>\<ge> 0\<close>, term \<open>> 0\<close>, rate and payment, the schedule has exactly
  \<open>term_years + 1\<close> rows, one per year \<open>0 .. term_years\<close>; the row of year 0 records the
  principal; and the balance recorded for year \<open>i\<close> is \<open>max 0\<close> of the balance after
  \<open>12 * i\<close> monthly payments, so it is never negative.
\<close>

theorem schedule_shape:
  assumes "0 \<le> P" and "0 < term_years"
  shows "int (length (generate_amortization_and_depreciation P rate term_years emi vp vi)) = term_years + 1 \<and>
         Year (generate_amortization_and_depreciation P rate term_years emi vp vi ! 0) = 0 \<and>
         Loan_Balance (generate_amortization_and_depreciation P rate term_years emi vp vi ! 0) = P \<and>
         (\<forall>i < length (generate_amortization_and_depreciation P rate term_years emi vp vi).
            Year (generate_amortization_and_depreciation P rate term_years emi vp vi ! i) = i \<and>
            Loan_Balance (generate_amortization_and_depreciation P rate term_years emi vp vi ! i) =
              max 0 ((pay_month rate emi ^^ (12 * i)) P) \<and>
            0 \<le> Loan_Balance (generate_amortization_and_depreciation P rate term_years emi vp vi ! i))"
proof -
  have ty: "0 \<le> term_years" using assms(2) by simp
  show ?thesis
    using assms by (simp add: generate_length [OF ty] generate_nth [OF ty])
qed

theorem schedule_shape_witness:
  "(0::real) \<le> 1200 \<and> (0::int) < 2 \<and>
   length (generate_amortization_and_depreciation 1200 0 2 50 1000 None) = 3 \<and>
   Loan_Balance (generate_amortization_and_depreciation 1200 0 2 50 1000 None ! 0) = 1200 \<and>
   Year (generate_amortization_and_depreciation 1200 0 2 50 1000 None ! 2) = 2 \<and>
   0 \<le> Loan_Balance (generate_amortization_and_depreciation 1200 0 2 50 1000 None ! 2)"
proof -
  note shape = schedule_shape [of 1200 2 0 50 1000 None]
  have len: "length (generate_amortization_and_depreciation 1200 0 2 50 1000 None) = 3"
    using shape by simp
  show ?thesis
    using shape len by simp
qed

subsection \<open>Depreciation\<close>

text \<open>
  C8. For every vehicle price \<open>> 0\<close>, the value recorded for year 0 is the price itself,
  the value recorded for year \<open>i\<close> is \<open>price * (1 - 0.15) ^ i\<close>, and over the years of
  the schedule the value is strictly decreasing.
\<close>

theorem car_value_decreasing:
  assumes "0 < vp" and "0 \<le> term_years"
  shows "Car_Value (generate_amortization_and_depreciation P rate term_years emi vp vi ! 0) = vp \<and>
         (\<forall>i < length (generate_amortization_and_depreciation P rate term_years emi vp vi).
            Car_Value (generate_amortization_and_depreciation P rate term_years emi vp vi ! i) =
              vp * (1 - 0.15) ^ i) \<and>
         (\<forall>i j. i < j \<and> j < length (generate_amortization_and_depreciation P rate term_years emi vp vi) \<longrightarrow>
            Car_Value (generate_amortization_and_depreciation P rate term_years emi vp vi ! j) <
            Car_Value (generate_amortization_and_depreciation P rate term_years emi vp vi ! i))"
proof -
  have dec: "vp * (1 - annual_depreciation_rate) ^ j < vp * (1 - annual_depreciation_rate) ^ i"
    if "i < j" for i j :: nat
  proof -
    have "(1 - annual_depreciation_rate) ^ j < (1 - annual_depreciation_rate) ^ i"
      using that by (intro power_strict_decreasing) (simp_all add: annual_depreciation_rate_def)
    then show ?thesis using assms(1) by simp
  qed
  show ?thesis
    using assms(2) dec
    by (auto simp add: generate_length generate_nth annual_depreciation_rate_def)
qed

theorem car_value_decreasing_witness:
  "(0::real) < 1000 \<and> (0::int) \<le> 2 \<and>
   Car_Value (generate_amortization_and_depreciation 1200 0 2 50 1000 None ! 0) = 1000 \<and>
   Car_Value (generate_amortization_and_depreciation 1200 0 2 50 1000 None ! 1) = 850 \<and>
   Car_Value (generate_amortization_and_depreciation 1200 0 2 50 1000 None ! 2) <
   Car_Value (generate_amortization_and_depreciation 1200 0 2 50 1000 None ! 1)"
proof -
  note dec = car_value_decreasing [of 1000 2 1200 0 50 None]
  have len: "length (generate_amortization_and_depreciation 1200 0 2 50 1000 None) = 3"
    by (simp add: generate_length)
  have one: "Car_Value (generate_amortization_and_depreciation 1200 0 2 50 1000 None ! 1) = 850"
    using dec len by simp
  have two: "Car_Value (generate_amortization_and_depreciation 1200 0 2 50 1000 None ! 2) <
             Car_Value (generate_amortization_and_depreciation 1200 0 2 50 1000 None ! 1)"
    using dec len by (simp add: power2_eq_square)
  show ?thesis
    using dec one two by simp
qed

subsection \<open>Total cost of ownership\<close>

text \<open>
  C4. For every vehicle record that is present, the breakdown returned by
  \<open>calculate_total_cost_of_ownership\<close> has the five entries Loan Payments, Insurance,
  Maintenance, Fuel/Charging and Total TCO, and the total is the sum of the other four.
\<close>

theorem tco_total_is_sum_of_components:
  "\<exists>loan insurance maintenance fuel.
     calculate_total_cost_of_ownership (Some info) total_loan_cost term_years gas_price electricity_price =
       [(''Loan Payments'', loan), (''Insurance'', insurance), (''Maintenance'', maintenance),
        (''Fuel/Charging'', fuel), (''Total TCO'', loan + insurance + maintenance + fuel)]"
  by (simp add: calculate_total_cost_of_ownership_def Let_def)

text \<open>
  C9. For a Gas vehicle (the key \<open>fuel_type\<close> holds Gas, or is missing and defaults to
  Gas), with \<open>e\<close> the efficiency read from the record: the Fuel/Charging entry is
  \<open>12000 / e * gas_price * term_years\<close> when \<open>e > 0\<close>, and 0 when \<open>e = 0\<close>. The scenario of
  efficiency 30, gas price 3.50 and 5 years (a fuel cost of 7000) is the witness.
\<close>

theorem gas_fuel_cost:
  assumes "dict_get (fuel_type info) ''Gas'' = ''Gas''"
  shows "(0 < dict_get (efficiency info) 30 \<longrightarrow>
            map_of (calculate_total_cost_of_ownership (Some info) total_loan_cost term_years gas_price electricity_price)
              ''Fuel/Charging'' =
            Some (12000 / dict_get (efficiency info) 30 * gas_price * of_int term_years)) \<and>
         (dict_get (efficiency info) 30 = 0 \<longrightarrow>
            map_of (calculate_total_cost_of_ownership (Some info) total_loan_cost term_years gas_price electricity_price)
              ''Fuel/Charging'' =
            Some 0)"
  using assms by (simp add: calculate_total_cost_of_ownership_def Let_def)

theorem gas_fuel_cost_witness:
  "dict_get (Some ''Gas'') ''Gas'' = ''Gas'' \<and> (0::real) < dict_get (Some 30) 30 \<and>
   map_of (calculate_total_cost_of_ownership
             (Some \<lparr>fuel_type = Some ''Gas'', efficiency = Some 30,
                    avg_insurance_per_year = Some 1500, avg_maintenance_per_year = Some 400\<rparr>)
             35000 5 3.5 0.15)
     ''Fuel/Charging'' = Some 7000"
proof -
  have gas: "dict_get (Some ''Gas'') ''Gas'' = ''Gas''" and eff: "dict_get (Some (30::real)) 30 = 30"
    by (simp_all add: dict_get_def)
  show ?thesis
    using gas eff
      gas_fuel_cost [where info = "\<lparr>fuel_type = Some ''Gas'', efficiency = Some 30,
                          avg_insurance_per_year = Some 1500, avg_maintenance_per_year = Some 400\<rparr>"
                        and total_loan_cost = 35000 and term_years = 5 and gas_price = "3.5"
                        and electricity_price = "0.15"]
    by simp
qed

text \<open>
  C10. For a vehicle record whose \<open>fuel_type\<close> is neither Gas nor Electric, the call
  still returns the five entries: Fuel/Charging is 0 and the total is loan payments plus
  insurance plus maintenance.
\<close>

theorem tco_other_fuel_type:
  assumes "fuel_type info = Some ft" and "ft \<noteq> ''Gas''" and "ft \<noteq> ''Electric''"
  shows "calculate_total_cost_of_ownership (Some info) total_loan_cost term_years gas_price electricity_price =
         [(''Loan Payments'', total_loan_cost),
          (''Insurance'', dict_get (avg_insurance_per_year info) 0 * of_int term_years),
          (''Maintenance'', dict_get (avg_maintenance_per_year info) 0 * of_int term_years),
          (''Fuel/Charging'', 0),
          (''Total TCO'', total_loan_cost + dict_get (avg_insurance_per_year info) 0 * of_int term_years +
                          dict_get (avg_maintenance_per_year info) 0 * of_int term_years)]"
  using assms by (simp add: calculate_total_cost_of_ownership_def Let_def dict_get_def)

theorem tco_other_fuel_type_witness:
  "''Hybrid'' \<noteq> ''Gas'' \<and> ''Hybrid'' \<noteq> ''Electric'' \<and>
   calculate_total_cost_of_ownership
     (Some \<lparr>fuel_type = Some ''Hybrid'', efficiency = Some 50,
            avg_insurance_per_year = Some 1500, avg_maintenance_per_year = Some 400\<rparr>)
     35000 5 3.5 0.15 =
   [(''Loan Payments'', 35000), (''Insurance'', 7500), (''Maintenance'', 2000),
    (''Fuel/Charging'', 0), (''Total TCO'', 44500)]"
  using tco_other_fuel_type
    [where info = "\<lparr>fuel_type = Some ''Hybrid'', efficiency = Some 50,
          avg_insurance_per_year = Some 1500, avg_maintenance_per_year = Some 400\<rparr>"
        and ft = "''Hybrid''" and total_loan_cost = 35000 and term_years = 5 and gas_price = "3.5"
        and electricity_price = "0.15"]
  by (simp add: dict_get_def)

subsection \<open>Underwater exposure\<close>

lemma fold_max_is_Max:
  fixes u :: real
  shows "fold max us u = Max (set (u # us))"
  by (simp only: Max.set_eq_fold)

text \<open>
  C5. For every schedule that \<open>generate_amortization_and_depreciation\<close> produces (a term
  \<open>\<ge> 0\<close>, so that there is a row), the underwater series has one entry per row, the
  entry of a row is \<open>max 0 (balance - value)\<close>, no entry is negative, and
  \<open>max_underwater\<close> is the maximum of the series.
\<close>

theorem underwater_nonneg_and_peak:
  assumes "0 \<le> term_years"
  shows "length (underwater_amounts (generate_amortization_and_depreciation P rate term_years emi vp vi)) =
           length (generate_amortization_and_depreciation P rate term_years emi vp vi) \<and>
         (\<forall>i < length (generate_amortization_and_depreciation P rate term_years emi vp vi).
            underwater_amounts (generate_amortization_and_depreciation P rate term_years emi vp vi) ! i =
              max 0 (Loan_Balance (generate_amortization_and_depreciation P rate term_years emi vp vi ! i) -
                     Car_Value (generate_amortization_and_depreciation P rate term_years emi vp vi ! i))) \<and>
         (\<forall>u \<in> set (underwater_amounts (generate_amortization_and_depreciation P rate term_years emi vp vi)).
            0 \<le> u) \<and>
         max_underwater (generate_amortization_and_depreciation P rate term_years emi vp vi) =
           Some (Max (set (underwater_amounts (generate_amortization_and_depreciation P rate term_years emi vp vi))))"
proof -
  define S where "S = generate_amortization_and_depreciation P rate term_years emi vp vi"
  have "length S = nat (term_years + 1)"
    unfolding S_def using assms by (rule generate_length)
  then have "S \<noteq> []" using assms by auto
  then obtain u us where us: "underwater_amounts S = u # us"
    by (cases S) (simp_all add: underwater_amounts_def)
  have peak: "max_underwater S = Some (Max (set (underwater_amounts S)))"
    by (simp add: max_underwater_def us fold_max_is_Max)
  have "length (underwater_amounts S) = length S"
    by (simp add: underwater_amounts_def)
  moreover have "\<forall>i < length S. underwater_amounts S ! i = max 0 (Loan_Balance (S ! i) - Car_Value (S ! i))"
    by (simp add: underwater_amounts_def)
  moreover have "\<forall>u \<in> set (underwater_amounts S). 0 \<le> u"
    by (auto simp add: underwater_amounts_def)
  ultimately show ?thesis
    using peak unfolding S_def by blast
qed

theorem underwater_nonneg_and_peak_witness:
  "(0::int) \<le> 2 \<and>
   underwater_amounts (generate_amortization_and_depreciation 1200 0 2 50 1000 None) = [200, 0, 0] \<and>
   list_all (\<lambda>u. 0 \<le> u) (underwater_amounts (generate_amortization_and_depreciation 1200 0 2 50 1000 None)) \<and>
   max_underwater (generate_amortization_and_depreciation 1200 0 2 50 1000 None) = Some 200"
proof -
  have series: "underwater_amounts (generate_amortization_and_depreciation 1200 0 2 50 1000 None) = [200, 0, 0]"
    by (simp add: underwater_amounts_def generate_amortization_and_depreciation_def pay_month_def
        annual_depreciation_rate_def eval_nat_numeral upt_rec)
  note peak = underwater_nonneg_and_peak [of 2 1200 0 50 1000 None]
  have "max_underwater (generate_amortization_and_depreciation 1200 0 2 50 1000 None) = Some 200"
    using peak by (simp add: series)
  moreover have "list_all (\<lambda>u. 0 \<le> u)
      (underwater_amounts (generate_amortization_and_depreciation 1200 0 2 50 1000 None))"
    using peak by (simp add: list_all_iff)
  ultimately show ?thesis
    using series by simp
qed

subsection \<open>Financial health\<close>

text \<open>
  C6. For every income \<open>> 0\<close> and every term other than 0, with
  \<open>ratio = total / (loan_term * 12) / income * 100\<close>: the check returns the ratio and a
  status, and the status is Good exactly when \<open>ratio < 15\<close>, Borderline exactly when
  \<open>15 \<le> ratio < 20\<close>, and High-Risk exactly when \<open>ratio \<ge> 20\<close>. The scenario of an income
  of 6000 and a monthly cost of 1200 (a total of 72000 over 5 years), with ratio 20 and
  status High-Risk, is the witness.
\<close>

theorem financial_health_bands:
  assumes "0 < monthly_income" and "loan_term \<noteq> 0"
  shows "\<exists>status.
           financial_health tco loan_term monthly_income =
             Inr (Some (dict_get (map_of tco ''Total TCO'') 0 / of_int (loan_term * 12) / monthly_income * 100,
                        status)) \<and>
           (status = ''Good'' \<longleftrightarrow>
              dict_get (map_of tco ''Total TCO'') 0 / of_int (loan_term * 12) / monthly_income * 100 < 15) \<and>
           (status = ''Borderline'' \<longleftrightarrow>
              15 \<le> dict_get (map_of tco ''Total TCO'') 0 / of_int (loan_term * 12) / monthly_income * 100 \<and>
              dict_get (map_of tco ''Total TCO'') 0 / of_int (loan_term * 12) / monthly_income * 100 < 20) \<and>
           (status = ''High-Risk'' \<longleftrightarrow>
              20 \<le> dict_get (map_of tco ''Total TCO'') 0 / of_int (loan_term * 12) / monthly_income * 100)"
  using assms by (simp add: financial_health_def float_div_def Let_def)

theorem financial_health_bands_witness:
  "(0::real) < 6000 \<and> (5::int) \<noteq> 0 \<and>
   financial_health [(''Total TCO'', 72000)] 5 6000 = Inr (Some (20, ''High-Risk''))"
proof -
  obtain status where
    res: "financial_health [(''Total TCO'', 72000)] 5 6000 = Inr (Some (20, status))" and
    high: "status = ''High-Risk'' \<longleftrightarrow> (20::real) \<le> 20"
    using financial_health_bands [of 6000 5 "[(''Total TCO'', 72000)]"]
    by (auto simp add: dict_get_def)
  from high have "status = ''High-Risk''" by simp
  with res show ?thesis by simp
qed

end
